theory Spec2Isabelle
  imports Complex_Main
begin

section \<open>Python values used by the ledger\<close>

text \<open>
  The development embeds the class \<open>DataHandler\<close> and the function \<open>parse_date\<close> of
  \<open>week7/assignment7.py\<close>.

  Strings are \<open>string\<close>; a character stands for the code point of the same number
  (code points below 256). Amounts are Python floats, as the annotations of the methods
  say (a small int passed as an amount, as the tests do, stands for the float of the same
  value). Exceptions are values of the type \<open>error\<close>, one constructor for each class
  that occurs, with its message.
\<close>

datatype error =
    ValueError string
  | KeyError string
  | IndexError string
  | FileNotFoundError string
  | JSONDecodeError string
  | UnicodeDecodeError string
  | PermissionError string
  | TypeError string

section \<open>Python floats\<close>

text \<open>
  A float is an IEEE 754 binary64 value: a finite number, an infinity or the
  not-a-number value. Every finite float is a whole multiple of 2 to the power -1074,
  the smallest positive float, and \<open>Finite k\<close> stands for \<open>k\<close> times that unit. The two
  zeros, which compare equal, are one value here. Not every \<open>k\<close> gives a float: the
  significand of a float has at most 53 bits. The operations below return floats on
  floats, and the theorems hold for every \<open>k\<close>.
\<close>

datatype float = Finite int | PosInf | NegInf | NaN

text \<open>
  The whole number \<open>n\<close> in these units. It is a float when \<open>n\<close> is representable, in
  particular for every \<open>n\<close> of magnitude up to 2 to the power 53.
\<close>

definition whole :: "int \<Rightarrow> float" where
  "whole n = Finite (n * 2 ^ 1074)"

text \<open>The number of bits of a positive integer, \<open>int.bit_length\<close>.\<close>

function bit_length :: "int \<Rightarrow> nat" where
  "bit_length k = (if k \<le> 0 then 0 else Suc (bit_length (k div 2)))"
  by pat_completeness auto
termination
  by (relation "measure nat") auto

declare bit_length.simps [simp del]

text \<open>
  Rounding of the exact result of an operation, given in units, to the nearest float,
  ties to the even significand: a significand keeps 53 bits, and a result of magnitude
  2 to the power 1024 or more after rounding is an infinity.
\<close>

definition round_float :: "int \<Rightarrow> float" where
  "round_float k =
     (let a = \<bar>k\<bar>; n = bit_length a in
      if n \<le> 53 then Finite k
      else
        (let s = n - 53;
             q = a div 2 ^ s;
             r = a mod 2 ^ s;
             h = 2 ^ (s - 1);
             q' = (if h < r \<or> (r = h \<and> odd q) then q + 1 else q);
             y = q' * 2 ^ s
         in if 2 ^ 2098 \<le> y then (if k < 0 then NegInf else PosInf)
            else Finite (if k < 0 then - y else y)))"

fun float_add :: "float \<Rightarrow> float \<Rightarrow> float" where
  "float_add NaN y = NaN"
| "float_add x NaN = NaN"
| "float_add PosInf NegInf = NaN"
| "float_add NegInf PosInf = NaN"
| "float_add PosInf y = PosInf"
| "float_add x PosInf = PosInf"
| "float_add NegInf y = NegInf"
| "float_add x NegInf = NegInf"
| "float_add (Finite a) (Finite b) = round_float (a + b)"

fun float_neg :: "float \<Rightarrow> float" where
  "float_neg (Finite a) = Finite (- a)"
| "float_neg PosInf = NegInf"
| "float_neg NegInf = PosInf"
| "float_neg NaN = NaN"

text \<open>Every comparison with the not-a-number value is false.\<close>

fun float_less :: "float \<Rightarrow> float \<Rightarrow> bool" where
  "float_less NaN y = False"
| "float_less x NaN = False"
| "float_less (Finite a) (Finite b) = (a < b)"
| "float_less x PosInf = (x \<noteq> PosInf)"
| "float_less NegInf y = (y \<noteq> NegInf)"
| "float_less x y = False"

text \<open>
  The operators of Python on floats. The \<open>0\<close> of the source is the integer zero, which
  compares and adds as the float zero does.
\<close>

instantiation float :: "{zero, plus, uminus, minus, ord}"
begin

definition zero_float :: float where
  "zero_float = Finite 0"

definition plus_float :: "float \<Rightarrow> float \<Rightarrow> float" where
  "plus_float x y = float_add x y"

definition uminus_float :: "float \<Rightarrow> float" where
  "uminus_float x = float_neg x"

definition minus_float :: "float \<Rightarrow> float \<Rightarrow> float" where
  "minus_float x y = float_add x (float_neg y)"

definition less_float :: "float \<Rightarrow> float \<Rightarrow> bool" where
  "less_float x y = float_less x y"

definition less_eq_float :: "float \<Rightarrow> float \<Rightarrow> bool" where
  "less_eq_float x y = (float_less x y \<or> (x = y \<and> x \<noteq> NaN))"

instance ..

end

text \<open>\<open>str.isspace\<close> on the code points below 256.\<close>

definition is_space :: "char \<Rightarrow> bool" where
  "is_space c = (of_char c \<in> {9, 10, 11, 12, 13, 28, 29, 30, 31, 32, 133, 160 :: nat})"

text \<open>\<open>str.strip()\<close>: whitespace is removed at both ends.\<close>

definition strip :: "string \<Rightarrow> string" where
  "strip s = rev (dropWhile is_space (rev (dropWhile is_space s)))"

text \<open>\<open>str.split(sep)\<close> for a separator of one character: \<open>n\<close> separators give \<open>n + 1\<close> parts.\<close>

fun split_on :: "char \<Rightarrow> string \<Rightarrow> string list" where
  "split_on sep [] = [[]]"
| "split_on sep (c # cs) =
     (if c = sep then [] # split_on sep cs
      else (case split_on sep cs of
              [] \<Rightarrow> [[c]]
            | p # ps \<Rightarrow> (c # p) # ps))"

section \<open>Dates: \<open>datetime.strptime\<close> and \<open>strftime\<close> with the format \<open>%Y-%m-%d\<close>\<close>

text \<open>A date is year, month, day.\<close>

type_synonym date = "nat \<times> nat \<times> nat"

definition is_leap :: "nat \<Rightarrow> bool" where
  "is_leap y = (y mod 4 = 0 \<and> (y mod 100 \<noteq> 0 \<or> y mod 400 = 0))"

definition days_in_month :: "nat \<Rightarrow> nat \<Rightarrow> nat" where
  "days_in_month y m =
     (if m = 2 then (if is_leap y then 29 else 28)
      else if m = 4 \<or> m = 6 \<or> m = 9 \<or> m = 11 then 30
      else 31)"

text \<open>The check of the constructor \<open>datetime(year, month, day)\<close>.\<close>

definition valid_date :: "date \<Rightarrow> bool" where
  "valid_date dt =
     (case dt of (y, m, d) \<Rightarrow>
        1 \<le> y \<and> y \<le> 9999 \<and> 1 \<le> m \<and> m \<le> 12 \<and> 1 \<le> d \<and> d \<le> days_in_month y m)"

text \<open>The character classes of the regular expressions.\<close>

definition in_range :: "char \<Rightarrow> char \<Rightarrow> char \<Rightarrow> bool" where
  "in_range lo hi c = ((of_char lo :: nat) \<le> of_char c \<and> (of_char c :: nat) \<le> of_char hi)"

definition is_digit :: "char \<Rightarrow> bool" where
  "is_digit c = in_range (CHR ''0'') (CHR ''9'') c"

definition digit_val :: "char \<Rightarrow> nat" where
  "digit_val c = of_char c - 48"

text \<open>
  \<open>strptime\<close> turns each directive into a group of a regular expression and matches the
  result at the start of the text: \<open>%Y\<close> is \<open>\d\d\d\d\<close>, \<open>%m\<close> is
  \<open>1[0-2]|0[1-9]|[1-9]\<close> and \<open>%d\<close> is \<open>3[0-1]|[1-2]\d|0[1-9]|[1-9]| [1-9]\<close>.
  A group is modelled by the list of its matches, in the order the alternatives are
  tried: the value read and the text left. Backtracking is the order of these lists.
\<close>

definition re_Y :: "string \<Rightarrow> (nat \<times> string) list" where
  "re_Y s =
     (case s of
        a # b # c # d # r \<Rightarrow>
          (if is_digit a \<and> is_digit b \<and> is_digit c \<and> is_digit d
           then [(1000 * digit_val a + 100 * digit_val b + 10 * digit_val c + digit_val d, r)]
           else [])
      | _ \<Rightarrow> [])"

text \<open>Two characters of the classes \<open>p\<close> and \<open>q\<close>, read as the number \<open>v\<close> gives.\<close>

definition re_two :: "(char \<Rightarrow> bool) \<Rightarrow> (char \<Rightarrow> bool) \<Rightarrow> (char \<Rightarrow> char \<Rightarrow> nat) \<Rightarrow>
    string \<Rightarrow> (nat \<times> string) list" where
  "re_two p q v s =
     (case s of
        a # b # r \<Rightarrow> (if p a \<and> q b then [(v a b, r)] else [])
      | _ \<Rightarrow> [])"

definition re_one :: "(char \<Rightarrow> bool) \<Rightarrow> string \<Rightarrow> (nat \<times> string) list" where
  "re_one p s =
     (case s of
        a # r \<Rightarrow> (if p a then [(digit_val a, r)] else [])
      | _ \<Rightarrow> [])"

definition two_digits :: "char \<Rightarrow> char \<Rightarrow> nat" where
  "two_digits a b = 10 * digit_val a + digit_val b"

definition re_m :: "string \<Rightarrow> (nat \<times> string) list" where
  "re_m s =
     re_two (\<lambda>c. c = CHR ''1'') (in_range (CHR ''0'') (CHR ''2'')) two_digits s
     @ re_two (\<lambda>c. c = CHR ''0'') (in_range (CHR ''1'') (CHR ''9'')) two_digits s
     @ re_one (in_range (CHR ''1'') (CHR ''9'')) s"

definition re_d :: "string \<Rightarrow> (nat \<times> string) list" where
  "re_d s =
     re_two (\<lambda>c. c = CHR ''3'') (in_range (CHR ''0'') (CHR ''1'')) two_digits s
     @ re_two (in_range (CHR ''1'') (CHR ''2'')) is_digit two_digits s
     @ re_two (\<lambda>c. c = CHR ''0'') (in_range (CHR ''1'') (CHR ''9'')) two_digits s
     @ re_one (in_range (CHR ''1'') (CHR ''9'')) s
     @ re_two (\<lambda>c. c = CHR '' '') (in_range (CHR ''1'') (CHR ''9'')) (\<lambda>a b. digit_val b) s"

definition re_lit :: "char \<Rightarrow> string \<Rightarrow> string list" where
  "re_lit x s = (case s of c # r \<Rightarrow> (if c = x then [r] else []) | [] \<Rightarrow> [])"

text \<open>All matches of \<open>%Y-%m-%d\<close> at the start of the text, the preferred one first.\<close>

definition re_ymd :: "string \<Rightarrow> (date \<times> string) list" where
  "re_ymd s =
     concat (map (\<lambda>(y, r1).
       concat (map (\<lambda>r2.
         concat (map (\<lambda>(m, r3).
           concat (map (\<lambda>r4.
             map (\<lambda>(d, r5). ((y, m, d), r5)) (re_d r4))
           (re_lit (CHR ''-'') r3)))
         (re_m r2)))
       (re_lit (CHR ''-'') r1)))
     (re_Y s))"

text \<open>
  \<open>datetime.strptime(text, "%Y-%m-%d")\<close>: no match, text left after the match
  (\<open>unconverted data remains\<close>) and a date that \<open>datetime\<close> refuses all raise
  \<open>ValueError\<close>; the result is \<open>None\<close> then.
\<close>

definition strptime :: "string \<Rightarrow> date option" where
  "strptime s =
     (case re_ymd s of
        [] \<Rightarrow> None
      | (dt, r) # _ \<Rightarrow>
          (if r \<noteq> [] then None
           else if valid_date dt then Some dt
           else None))"

text \<open>
  \<open>strftime("%Y-%m-%d")\<close>: the year on four digits, month and day on two. (For a year
  below 1000 the C library decides whether the year is padded; the clock of a running
  system is later than that.)
\<close>

definition digit_char :: "nat \<Rightarrow> char" where
  "digit_char n = (''0123456789'' ! (n mod 10))"

definition strftime :: "date \<Rightarrow> string" where
  "strftime dt =
     (case dt of (y, m, d) \<Rightarrow>
        [digit_char (y div 1000), digit_char (y div 100), digit_char (y div 10), digit_char y]
        @ [CHR ''-'', digit_char (m div 10), digit_char m]
        @ [CHR ''-'', digit_char (d div 10), digit_char d])"

text \<open>
  \<open>parse_date\<close>. The first argument is the date of \<open>datetime.today()\<close>. The bare
  \<open>except\<close> turns every failure into the one \<open>ValueError\<close>.
\<close>

definition date_format_message :: string where
  "date_format_message = ''Date format should be %Y-%m-%d''"

definition parse_date :: "date \<Rightarrow> string \<Rightarrow> error + string" where
  "parse_date today text =
     (let text = strip text in
      if text = [] then Inr (strftime today)
      else (case strptime text of
              None \<Rightarrow> Inl (ValueError date_format_message)
            | Some _ \<Rightarrow> Inr text))"

section \<open>Records, the ledger and its files\<close>

text \<open>
  The dictionaries the ledger stores have fixed keys; they are records here. The model
  covers the ledgers whose sequences hold records of these two shapes.
\<close>

record income =
  source :: string
  amount :: float

record expense =
  description :: string
  category :: string
  amount :: float
  date :: string

record DataHandler =
  autosave :: bool
  incomes :: "income list"
  expenses :: "expense list"
  files_loaded :: bool

text \<open>
  The file \<open>finance_data.json\<close> is what \<open>open\<close> and \<open>json.load\<close> make of it: they
  raise an exception (\<open>FileNotFoundError\<close> when there is no file, \<open>JSONDecodeError\<close>
  when the text is not JSON, \<open>UnicodeDecodeError\<close> when the bytes are not text,
  \<open>PermissionError\<close>, and so on), or they return an object. Of the object the model
  keeps the two keys the ledger reads; a key is absent, holds \<open>null\<close>, or holds a list
  of records. A document that is not an object raises \<open>TypeError\<close> when it is indexed,
  and is read as that exception. \<open>json.dump\<close> followed by \<open>json.load\<close> gives back the
  value written: writing is storing the object.
\<close>

datatype 'a field = Absent | Null | Value 'a

record json_data =
  data_expenses :: "expense list field"
  data_incomes :: "income list field"

datatype json_read = Raises error | Parsed json_data

text \<open>
  The file \<open>finance_data.txt\<close> is its text, or the text whose lines are read before
  the reading raises, with the exception (no text and \<open>FileNotFoundError\<close> when there
  is no file).
\<close>

datatype text_read = Text string | TextRaises string error

record files =
  finance_data_json :: json_read
  finance_data_txt :: text_read

text \<open>
  What the interpreter supplies: the date of \<open>datetime.today()\<close>, the text of a number
  in an f-string, and \<open>float(text)\<close> with the exception it raises.
\<close>

record runtime =
  today :: date
  str_of :: "float \<Rightarrow> string"
  float_of :: "string \<Rightarrow> error + float"

text \<open>The outcome of a method: the exception raised, if any, the ledger and the files.\<close>

type_synonym outcome = "error option \<times> DataHandler \<times> files"

section \<open>Saving\<close>

definition expense_line :: "runtime \<Rightarrow> expense \<Rightarrow> string" where
  "expense_line rt e =
     ''Expense|'' @ description e @ ''|'' @ category e @ ''|''
     @ str_of rt (expense.amount e) @ ''|'' @ date e @ [CHR 0x0A]"

definition income_line :: "runtime \<Rightarrow> income \<Rightarrow> string" where
  "income_line rt i =
     ''Income|'' @ source i @ ''|'' @ str_of rt (income.amount i) @ [CHR 0x0A]"

definition save_to_file :: "runtime \<Rightarrow> DataHandler \<Rightarrow> files \<Rightarrow> files" where
  "save_to_file rt s fs =
     (if \<not> autosave s then fs
      else
        fs\<lparr>finance_data_json :=
             Parsed \<lparr>data_expenses = Value (expenses s), data_incomes = Value (incomes s)\<rparr>,
           finance_data_txt :=
             Text (concat (map (expense_line rt) (expenses s))
                   @ concat (map (income_line rt) (incomes s)))\<rparr>)"

section \<open>Adding and deleting\<close>

definition add_income :: "runtime \<Rightarrow> string \<Rightarrow> float \<Rightarrow> DataHandler \<Rightarrow> files \<Rightarrow> outcome" where
  "add_income rt src amt s fs =
     (if amt < 0 then (Some (ValueError ''Income amount can't be negative''), s, fs)
      else if strip src = [] then (Some (ValueError ''Income source must be non-empty''), s, fs)
      else
        (let s' = s\<lparr>incomes := incomes s @ [\<lparr>source = src, amount = amt\<rparr>]\<rparr>
         in (None, s', save_to_file rt s' fs)))"

definition add_expense ::
    "runtime \<Rightarrow> string \<Rightarrow> string \<Rightarrow> float \<Rightarrow> string \<Rightarrow> DataHandler \<Rightarrow> files \<Rightarrow> outcome" where
  "add_expense rt descr cat amt dat s fs =
     (if strip cat = [] then (Some (ValueError ''Category must be non-empty''), s, fs)
      else if strip descr = [] then (Some (ValueError ''Description must be non-empty''), s, fs)
      else if amt < 0 then (Some (ValueError ''Expense amount can't be negative''), s, fs)
      else
        (case parse_date (today rt) dat of
           Inl e \<Rightarrow> (Some e, s, fs)
         | Inr dat' \<Rightarrow>
             (let s' = s\<lparr>expenses := expenses s
                        @ [\<lparr>description = descr, category = cat, amount = amt, date = dat'\<rparr>]\<rparr>
              in (None, s', save_to_file rt s' fs))))"

text \<open>
  \<open>del xs[index]\<close>: a negative index counts from the end of the list; an index that is
  out of range after that raises \<open>IndexError\<close>.
\<close>

definition py_del :: "'a list \<Rightarrow> int \<Rightarrow> error + 'a list" where
  "py_del xs index =
     (let n = int (length xs);
          j = (if index < 0 then index + n else index)
      in if 0 \<le> j \<and> j < n then Inr (take (nat j) xs @ drop (Suc (nat j)) xs)
         else Inl (IndexError ''list assignment index out of range''))"

definition delete_income :: "runtime \<Rightarrow> int \<Rightarrow> DataHandler \<Rightarrow> files \<Rightarrow> outcome" where
  "delete_income rt index s fs =
     (case py_del (incomes s) index of
        Inl e \<Rightarrow> (Some e, s, fs)
      | Inr xs \<Rightarrow> (let s' = s\<lparr>incomes := xs\<rparr> in (None, s', save_to_file rt s' fs)))"

definition delete_expense :: "runtime \<Rightarrow> int \<Rightarrow> DataHandler \<Rightarrow> files \<Rightarrow> outcome" where
  "delete_expense rt index s fs =
     (case py_del (expenses s) index of
        Inl e \<Rightarrow> (Some e, s, fs)
      | Inr xs \<Rightarrow> (let s' = s\<lparr>expenses := xs\<rparr> in (None, s', save_to_file rt s' fs)))"

section \<open>Totals\<close>





section \<open>Loading\<close>

text \<open>
  A text file is opened with universal newlines: \<open>\r\n\<close> and \<open>\r\<close> are read as
  \<open>\n\<close>. Iterating over the file gives its lines, each with its \<open>\n\<close> except
  possibly the last.
\<close>

fun universal_newlines :: "string \<Rightarrow> string" where
  "universal_newlines [] = []"
| "universal_newlines [c] = [if c = CHR 0x0D then CHR 0x0A else c]"
| "universal_newlines (c # d # r) =
     (if c = CHR 0x0D \<and> d = CHR 0x0A then CHR 0x0A # universal_newlines r
      else if c = CHR 0x0D then CHR 0x0A # universal_newlines (d # r)
      else c # universal_newlines (d # r))"

fun lines_of :: "string \<Rightarrow> string list" where
  "lines_of [] = []"
| "lines_of (c # cs) =
     (if c = CHR 0x0A then [c] # lines_of cs
      else (case lines_of cs of
              [] \<Rightarrow> [[c]]
            | l # ls \<Rightarrow> (c # l) # ls))"

text \<open>\<open>x or []\<close> for the value under a key that is present.\<close>

definition or_empty :: "'a list field \<Rightarrow> 'a list" where
  "or_empty f = (case f of Value xs \<Rightarrow> xs | _ \<Rightarrow> [])"

text \<open>
  The loop over the lines of \<open>finance_data.txt\<close>. It appends to the ledger as it goes:
  at an exception the ledger holds the records of the lines before.
\<close>

fun load_lines :: "runtime \<Rightarrow> string list \<Rightarrow> DataHandler \<Rightarrow> error option \<times> DataHandler" where
  "load_lines rt [] s = (None, s)"
| "load_lines rt (l # ls) s =
     (let line = strip l in
      if line = [] then load_lines rt ls s
      else
        (let line_parts = split_on (CHR ''|'') line;
             tag = line_parts ! 0
         in if tag = ''Income'' then
              (if length line_parts \<noteq> 3 then (Some (ValueError (''Bad Income line: '' @ line)), s)
               else (case float_of rt (line_parts ! 2) of
                       Inl e \<Rightarrow> (Some e, s)
                     | Inr a \<Rightarrow>
                         load_lines rt ls
                           (s\<lparr>incomes := incomes s
                                @ [\<lparr>source = line_parts ! 1, amount = a\<rparr>]\<rparr>)))
            else if tag = ''Expense'' then
              (if length line_parts \<noteq> 5 then (Some (ValueError (''Bad Expense line: '' @ line)), s)
               else (case float_of rt (line_parts ! 3) of
                       Inl e \<Rightarrow> (Some e, s)
                     | Inr a \<Rightarrow>
                         load_lines rt ls
                           (s\<lparr>expenses := expenses s
                                @ [\<lparr>description = line_parts ! 1, category = line_parts ! 2,
                                    amount = a, date = line_parts ! 4\<rparr>]\<rparr>)))
            else (Some (ValueError (''Unknown line format: '' @ line)), s)))"

definition load_txt :: "runtime \<Rightarrow> files \<Rightarrow> DataHandler \<Rightarrow> error option \<times> DataHandler" where
  "load_txt rt fs s =
     (case finance_data_txt fs of
        Text content \<Rightarrow> load_lines rt (lines_of (universal_newlines content)) s
      | TextRaises content e \<Rightarrow>
          (case load_lines rt (lines_of (universal_newlines content)) s of
             (None, s') \<Rightarrow> (Some e, s')
           | (Some e', s') \<Rightarrow> (Some e', s')))"

text \<open>The exceptions of \<open>except (FileNotFoundError, json.JSONDecodeError)\<close>.\<close>

definition caught :: "error \<Rightarrow> bool" where
  "caught e = (case e of FileNotFoundError _ \<Rightarrow> True | JSONDecodeError _ \<Rightarrow> True | _ \<Rightarrow> False)"

text \<open>
  \<open>load_from_file\<close>. Only \<open>FileNotFoundError\<close> and \<open>JSONDecodeError\<close> lead to the text
  file; every other exception of the reading leaves the method, and so does the
  \<open>KeyError\<close> of an absent key, after the assignment to \<open>expenses\<close> when the absent
  key is \<open>incomes\<close>.
\<close>

definition load_from_file :: "runtime \<Rightarrow> files \<Rightarrow> DataHandler \<Rightarrow> error option \<times> DataHandler" where
  "load_from_file rt fs s =
     (case finance_data_json fs of
        Parsed data \<Rightarrow>
          (case data_expenses data of
             Absent \<Rightarrow> (Some (KeyError ''expenses''), s)
           | _ \<Rightarrow>
               (let s1 = s\<lparr>expenses := or_empty (data_expenses data)\<rparr>
                in (case data_incomes data of
                      Absent \<Rightarrow> (Some (KeyError ''incomes''), s1)
                    | _ \<Rightarrow> (None, s1\<lparr>incomes := or_empty (data_incomes data)\<rparr>))))
      | Raises e \<Rightarrow> (if caught e then load_txt rt fs s else (Some e, s)))"

text \<open>
  The constructor. Every exception of the load is caught: the ledger is emptied and
  \<open>files_loaded\<close> becomes false.
\<close>

definition init :: "runtime \<Rightarrow> bool \<Rightarrow> files \<Rightarrow> DataHandler" where
  "init rt autosave_arg fs =
     (let s = \<lparr>autosave = autosave_arg, incomes = [], expenses = [], files_loaded = True\<rparr>
      in (case load_from_file rt fs s of
            (None, s') \<Rightarrow> s'
          | (Some e, s') \<Rightarrow> s'\<lparr>incomes := [], expenses := [], files_loaded := False\<rparr>))"

section \<open>Reading an outcome\<close>

definition raised :: "outcome \<Rightarrow> error option" where
  "raised r = fst r"

definition ledger :: "outcome \<Rightarrow> DataHandler" where
  "ledger r = fst (snd r)"

definition disk :: "outcome \<Rightarrow> files" where
  "disk r = snd (snd r)"

definition is_ValueError :: "error option \<Rightarrow> bool" where
  "is_ValueError x = (case x of Some (ValueError _) \<Rightarrow> True | _ \<Rightarrow> False)"

section \<open>Values for the examples\<close>

text \<open>
  A runtime for the examples: the day is 2026-11-04, and amounts that are small
  natural numbers are written and read in decimal. The theorems hold for every runtime.
\<close>

fun decimal :: "nat \<Rightarrow> string" where
  "decimal n = (if n < 10 then [digit_char n] else decimal (n div 10) @ [digit_char n])"

declare decimal.simps [simp del]

definition example_runtime :: runtime where
  "example_runtime =
     \<lparr>today = (2026, 11, 4),
      str_of = (\<lambda>x. case x of Finite k \<Rightarrow> decimal (nat (k div 2 ^ 1074)) | _ \<Rightarrow> ''nan''),
      float_of = (\<lambda>t.
        if t \<noteq> [] \<and> list_all is_digit t
        then Inr (whole (int (foldl (\<lambda>n c. 10 * n + digit_val c) 0 t)))
        else Inl (ValueError ''could not convert string to float''))\<rparr>"

definition empty_ledger :: DataHandler where
  "empty_ledger = \<lparr>autosave = True, incomes = [], expenses = [], files_loaded = True\<rparr>"

definition job :: income where
  "job = \<lparr>source = ''job'', amount = whole 1123\<rparr>"

definition stocks :: income where
  "stocks = \<lparr>source = ''stocks'', amount = whole 1000\<rparr>"

definition car_lease :: expense where
  "car_lease = \<lparr>description = ''car lease'', category = ''transportation'',
      amount = whole 500, date = ''2024-01-20''\<rparr>"

definition rent :: expense where
  "rent = \<lparr>description = ''rent'', category = ''housing'', amount = whole 2000,
      date = ''2024-01-01''\<rparr>"

definition example_ledger :: DataHandler where
  "example_ledger =
     \<lparr>autosave = True, incomes = [job, stocks], expenses = [car_lease, rent], files_loaded = True\<rparr>"

definition no_files :: files where
  "no_files =
     \<lparr>finance_data_json = Raises (FileNotFoundError ''finance_data.json''),
      finance_data_txt = TextRaises [] (FileNotFoundError ''finance_data.txt'')\<rparr>"

definition only_incomes_file :: files where
  "only_incomes_file =
     \<lparr>finance_data_json = Parsed \<lparr>data_expenses = Absent, data_incomes = Value [job]\<rparr>,
      finance_data_txt = TextRaises [] (FileNotFoundError ''finance_data.txt'')\<rparr>"

definition negative_income_file :: files where
  "negative_income_file =
     \<lparr>finance_data_json =
        Parsed \<lparr>data_expenses = Value [],
                data_incomes = Value [\<lparr>source = '' '', amount = whole (- 5)\<rparr>]\<rparr>,
      finance_data_txt = TextRaises [] (FileNotFoundError ''finance_data.txt'')\<rparr>"






section \<open>The properties in the words of the specification\<close>

text \<open>The list without its element at position \<open>k\<close>; the others keep their order.\<close>

definition removed_at :: "nat \<Rightarrow> 'a list \<Rightarrow> 'a list" where
  "removed_at k xs = take k xs @ drop (Suc k) xs"

text \<open>The number a text of digits denotes, as \<open>int\<close> reads it.\<close>

definition number :: "string \<Rightarrow> nat" where
  "number ds = foldl (\<lambda>n c. 10 * n + digit_val c) 0 ds"

text \<open>
  The digit grouping \<open>YYYY-MM-DD\<close>: three fields between hyphens, of four, two and two
  digits.
\<close>

definition grouping_422 :: "string \<Rightarrow> bool" where
  "grouping_422 t =
     (case split_on (CHR ''-'') t of
        [ys, ms, ds] \<Rightarrow>
          length ys = 4 \<and> list_all is_digit ys \<and> length ms = 2 \<and> list_all is_digit ms
          \<and> length ds = 2 \<and> list_all is_digit ds
      | _ \<Rightarrow> False)"

text \<open>
  The texts \<open>strptime\<close> reads with \<open>%Y-%m-%d\<close>, described by their fields: a year of four
  digits, a month of one or two digits, and a day of one or two digits or of a space and
  a digit. \<open>fields_ymd\<close> gives the date such a text denotes.
\<close>

definition month_text :: "string \<Rightarrow> bool" where
  "month_text ms = ((length ms = 1 \<or> length ms = 2) \<and> list_all is_digit ms)"

definition day_text :: "string \<Rightarrow> bool" where
  "day_text ds =
     (((length ds = 1 \<or> length ds = 2) \<and> list_all is_digit ds)
      \<or> (length ds = 2 \<and> hd ds = CHR '' '' \<and> is_digit (last ds)))"

definition fields_ymd :: "string \<Rightarrow> date option" where
  "fields_ymd t =
     (case split_on (CHR ''-'') t of
        [ys, ms, ds] \<Rightarrow>
          (if length ys = 4 \<and> list_all is_digit ys \<and> month_text ms \<and> day_text ds
           then Some (number ys, number ms, number (dropWhile (\<lambda>c. c = CHR '' '') ds))
           else None)
      | _ \<Rightarrow> None)"

definition accepted_ymd :: "string \<Rightarrow> bool" where
  "accepted_ymd t = (case fields_ymd t of Some dt \<Rightarrow> valid_date dt | None \<Rightarrow> False)"







text \<open>The ledger after a load that failed.\<close>

definition failed_ledger :: "bool \<Rightarrow> DataHandler" where
  "failed_ledger a = \<lparr>autosave = a, incomes = [], expenses = [], files_loaded = False\<rparr>"

text \<open>The invariants of the records.\<close>

definition income_ok :: "income \<Rightarrow> bool" where
  "income_ok i = (0 \<le> income.amount i \<and> strip (source i) \<noteq> [])"

definition expense_ok :: "expense \<Rightarrow> bool" where
  "expense_ok e =
     (0 \<le> expense.amount e \<and> strip (description e) \<noteq> [] \<and> strip (category e) \<noteq> []
      \<and> strptime (date e) \<noteq> None)"

definition ledger_ok :: "DataHandler \<Rightarrow> bool" where
  "ledger_ok s = (list_all income_ok (incomes s) \<and> list_all expense_ok (expenses s))"

text \<open>A date the clock can show: valid, with a year of four digits.\<close>

definition clock_ok :: "date \<Rightarrow> bool" where
  "clock_ok dt = (valid_date dt \<and> 1000 \<le> fst dt)"

section \<open>Lemmas on floats\<close>




lemma zero_whole: "(0::float) = whole 0"
  by (simp add: zero_float_def whole_def)


lemma whole_less_iff: "whole a < whole b \<longleftrightarrow> a < b"
  by (simp add: whole_def less_float_def)

lemma whole_le_iff: "whole a \<le> whole b \<longleftrightarrow> a \<le> b"
  by (auto simp add: whole_def less_eq_float_def)

lemma whole_less_zero: "whole a < 0 \<longleftrightarrow> a < 0"
  using whole_less_iff [of a 0] by (simp only: zero_whole)

lemma zero_le_whole: "0 \<le> whole a \<longleftrightarrow> 0 \<le> a"
  using whole_le_iff [of 0 a] by (simp only: zero_whole)

lemma whole_not_NaN: "whole a \<noteq> NaN"
  by (simp add: whole_def)

lemma not_less_zero_le: "\<not> x < (0::float) \<Longrightarrow> x \<noteq> NaN \<Longrightarrow> 0 \<le> x"
  by (cases x) (auto simp add: less_float_def less_eq_float_def zero_float_def)

lemma zero_le_not_less: "(0::float) \<le> x \<Longrightarrow> \<not> x < 0"
  by (cases x) (auto simp add: less_float_def less_eq_float_def zero_float_def)



lemma abs_sum_list_le: "\<bar>sum_list ks\<bar> \<le> (\<Sum>k\<leftarrow>ks. \<bar>k :: int\<bar>)"
  by (induction ks) auto





section \<open>Totals and balance\<close>




section \<open>Adding records\<close>


lemmas date_simps =
  parse_date_def strip_def is_space_def strptime_def re_ymd_def re_Y_def re_m_def re_d_def
  re_lit_def re_two_def re_one_def is_digit_def in_range_def digit_val_def two_digits_def
  valid_date_def days_in_month_def is_leap_def strftime_def digit_char_def



text \<open>
  Claim C2. \<open>add_income\<close> raises \<open>ValueError\<close> exactly when the amount is negative or
  the source is blank after trimming, raises nothing else, and a call that raises
  leaves the incomes as they were. \<open>add_expense\<close> raises \<open>ValueError\<close> exactly when
  description or category is blank after trimming, the amount is negative, or the date
  text is not blank and does not parse; it raises nothing else, and a call that raises
  leaves the expenses as they were.
\<close>

theorem add_raises_iff_invalid:
  "(is_ValueError (raised (add_income rt src amt s fs)) \<longleftrightarrow> amt < 0 \<or> strip src = [])
   \<and> (raised (add_income rt src amt s fs) = None \<longleftrightarrow> \<not> (amt < 0 \<or> strip src = []))
   \<and> (raised (add_income rt src amt s fs) \<noteq> None \<longrightarrow>
        incomes (ledger (add_income rt src amt s fs)) = incomes s)
   \<and> (is_ValueError (raised (add_expense rt descr cat eamt dat s fs)) \<longleftrightarrow>
        strip descr = [] \<or> strip cat = [] \<or> eamt < 0
        \<or> (strip dat \<noteq> [] \<and> strptime (strip dat) = None))
   \<and> (raised (add_expense rt descr cat eamt dat s fs) = None \<longleftrightarrow>
        \<not> (strip descr = [] \<or> strip cat = [] \<or> eamt < 0
        \<or> (strip dat \<noteq> [] \<and> strptime (strip dat) = None)))
   \<and> (raised (add_expense rt descr cat eamt dat s fs) \<noteq> None \<longrightarrow>
        expenses (ledger (add_expense rt descr cat eamt dat s fs)) = expenses s)"
  by (auto simp add: add_income_def add_expense_def raised_def ledger_def Let_def
      is_ValueError_def parse_date_def split: option.splits sum.splits if_splits)

theorem add_raises_iff_invalid_witness:
  "strip ''   '' = [] \<and> strptime (strip ''not-a-date'') = None
   \<and> is_ValueError (raised (add_income example_runtime ''   '' (whole 100) example_ledger no_files))
   \<and> incomes (ledger (add_income example_runtime ''   '' (whole 100) example_ledger no_files))
       = [job, stocks]
   \<and> is_ValueError (raised (add_expense example_runtime ''car lease'' ''transportation'' (whole 10)
         ''not-a-date'' example_ledger no_files))
   \<and> expenses (ledger (add_expense example_runtime ''car lease'' ''transportation'' (whole 10)
         ''not-a-date'' example_ledger no_files)) = [car_lease, rent]"
  using add_raises_iff_invalid [where rt = example_runtime and src = "''   ''" and amt = "whole 100"
      and s = example_ledger and fs = no_files and descr = "''car lease''"
      and cat = "''transportation''" and eamt = "whole 10" and dat = "''not-a-date''"]
  by (simp add: date_simps example_ledger_def whole_less_zero)

section \<open>Lemmas on strings and on the reading of dates\<close>

lemma char_eq_nat:
  "(c = CHR ''0'') = (of_char c = (48::nat))"
  "(c = CHR ''1'') = (of_char c = (49::nat))"
  "(c = CHR ''3'') = (of_char c = (51::nat))"
  "(c = CHR '' '') = (of_char c = (32::nat))"
  "(c = CHR ''-'') = (of_char c = (45::nat))"
  using of_char_eq_iff [where 'a = nat, of c "CHR ''0''"]
    of_char_eq_iff [where 'a = nat, of c "CHR ''1''"]
    of_char_eq_iff [where 'a = nat, of c "CHR ''3''"]
    of_char_eq_iff [where 'a = nat, of c "CHR '' ''"]
    of_char_eq_iff [where 'a = nat, of c "CHR ''-''"]
  by simp_all

lemma re_lit_same: "re_lit x (x # r) = [r]"
  by (simp add: re_lit_def)

lemma split_on_not_Nil: "split_on sep t \<noteq> []"
  by (induction t) (auto split: list.splits)

lemma split_on_no_sep: "sep \<notin> set xs \<Longrightarrow> split_on sep xs = [xs]"
  by (induction xs) auto

lemma split_on_append: "sep \<notin> set xs \<Longrightarrow> split_on sep (xs @ sep # r) = xs # split_on sep r"
  by (induction xs) auto

lemma split_on_join: "split_on sep t = p # ps \<Longrightarrow> t = p @ concat (map ((#) sep) ps)"
proof (induction t arbitrary: p ps)
  case Nil
  then show ?case by simp
next
  case (Cons c cs)
  show ?case
  proof (cases "c = sep")
    case True
    with Cons.prems have "p = []" "split_on sep cs = ps" by simp_all
    then obtain q qs where "ps = q # qs" "split_on sep cs = q # qs"
      using split_on_not_Nil [of sep cs] by (cases ps) auto
    with Cons.IH [of q qs] True \<open>p = []\<close> show ?thesis by simp
  next
    case False
    obtain q qs where q: "split_on sep cs = q # qs"
      using split_on_not_Nil [of sep cs] by (cases "split_on sep cs") auto
    with Cons.prems False have "p = c # q" "ps = qs" by simp_all
    with Cons.IH [OF q] show ?thesis by simp
  qed
qed

lemma split_on_three: "split_on sep t = [x, y, z] \<Longrightarrow> t = x @ sep # y @ sep # z"
  using split_on_join [of sep t x "[y, z]"] by simp

lemma len1: "length xs = Suc 0 \<longleftrightarrow> (\<exists>a. xs = [a])"
  by (cases xs) auto

lemma len2: "length xs = 2 \<longleftrightarrow> (\<exists>a b. xs = [a, b])"
  by (cases xs; cases "tl xs") auto

lemma len4: "length xs = 4 \<longleftrightarrow> (\<exists>a b c d. xs = [a, b, c, d])"
  by (auto simp add: length_Suc_conv eval_nat_numeral)

lemma re_m_month_text:
  assumes "month_text ms" "1 \<le> number ms" "number ms \<le> 12"
  shows "concat (map (\<lambda>(m, r3). concat (map (K m) (re_lit (CHR ''-'') r3)))
             (re_m (ms @ CHR ''-'' # r)))
           = K (number ms) r"
  using assms
  by (auto simp add: month_text_def len1 len2 number_def re_m_def re_two_def re_one_def
      re_lit_def is_digit_def in_range_def two_digits_def digit_val_def char_eq_nat)

lemma re_d_day_text:
  assumes "day_text ds" "1 \<le> number (dropWhile (\<lambda>c. c = CHR '' '') ds)"
    "number (dropWhile (\<lambda>c. c = CHR '' '') ds) \<le> 31"
  shows "\<exists>rest. re_d ds = (number (dropWhile (\<lambda>c. c = CHR '' '') ds), []) # rest"
  using assms
  by (auto simp add: day_text_def len1 len2 number_def re_d_def re_two_def re_one_def
      is_digit_def in_range_def two_digits_def digit_val_def char_eq_nat)


lemma re_Y_digits:
  assumes "length ys = 4" "list_all is_digit ys"
  shows "re_Y (ys @ r) = [(number ys, r)]"
  using assms by (auto simp add: len4 re_Y_def number_def)

lemma dash_not_digit: "list_all is_digit xs \<Longrightarrow> CHR ''-'' \<notin> set xs"
  by (induction xs) (auto simp add: is_digit_def in_range_def)

lemma dash_not_in_day: "day_text ds \<Longrightarrow> CHR ''-'' \<notin> set ds"
  by (auto simp add: day_text_def len1 len2 is_digit_def in_range_def)

lemma fields_ymd_SomeD:
  assumes "fields_ymd t = Some dt"
  obtains ys ms ds where "t = ys @ CHR ''-'' # ms @ CHR ''-'' # ds"
    "length ys = 4" "list_all is_digit ys" "month_text ms" "day_text ds"
    "dt = (number ys, number ms, number (dropWhile (\<lambda>c. c = CHR '' '') ds))"
proof -
  from assms obtain ys ms ds where sp: "split_on (CHR ''-'') t = [ys, ms, ds]"
    by (auto simp add: fields_ymd_def split: list.splits)
  with assms have "length ys = 4" "list_all is_digit ys" "month_text ms" "day_text ds"
    "dt = (number ys, number ms, number (dropWhile (\<lambda>c. c = CHR '' '') ds))"
    by (auto simp add: fields_ymd_def split: if_splits)
  with split_on_three [OF sp] that show ?thesis by blast
qed

lemma fields_ymd_build:
  assumes "length ys = 4" "list_all is_digit ys" "month_text ms" "day_text ds"
  shows "fields_ymd (ys @ CHR ''-'' # ms @ CHR ''-'' # ds)
     = Some (number ys, number ms, number (dropWhile (\<lambda>c. c = CHR '' '') ds))"
proof -
  have "CHR ''-'' \<notin> set ys" "CHR ''-'' \<notin> set ms" "CHR ''-'' \<notin> set ds"
    using assms by (auto simp add: dash_not_digit dash_not_in_day month_text_def)
  then have "split_on (CHR ''-'') (ys @ CHR ''-'' # ms @ CHR ''-'' # ds) = [ys, ms, ds]"
    by (simp add: split_on_append split_on_no_sep)
  with assms show ?thesis by (simp add: fields_ymd_def)
qed

lemma strptime_accepts_fields:
  assumes "fields_ymd t = Some dt" "valid_date dt"
  shows "strptime t = Some dt"
proof -
  from assms(1) obtain ys ms ds where t: "t = ys @ CHR ''-'' # ms @ CHR ''-'' # ds"
    and ys: "length ys = 4" "list_all is_digit ys" and ms: "month_text ms" and ds: "day_text ds"
    and dt: "dt = (number ys, number ms, number (dropWhile (\<lambda>c. c = CHR '' '') ds))"
    by (rule fields_ymd_SomeD)
  let ?d = "number (dropWhile (\<lambda>c. c = CHR '' '') ds)"
  have m: "1 \<le> number ms" "number ms \<le> 12" and d: "1 \<le> ?d" "?d \<le> 31"
    using assms(2) dt by (auto simp add: valid_date_def days_in_month_def split: if_splits)
  obtain rest where D: "re_d ds = (?d, []) # rest"
    using re_d_day_text [OF ds d] by blast
  have "re_ymd t = (dt, []) # map (\<lambda>(d, r5). ((number ys, number ms, d), r5)) rest"
    unfolding t dt
    by (simp add: re_ymd_def re_Y_digits [OF ys] re_lit_same re_m_month_text [OF ms m] D)
  with assms(2) show ?thesis by (simp add: strptime_def)
qed

lemma re_Y_mem:
  assumes "(y, r) \<in> set (re_Y s)"
  shows "\<exists>ys. s = ys @ r \<and> length ys = 4 \<and> list_all is_digit ys \<and> y = number ys"
proof -
  from assms obtain a b c d where "s = a # b # c # d # r"
    "is_digit a \<and> is_digit b \<and> is_digit c \<and> is_digit d"
    "y = 1000 * digit_val a + 100 * digit_val b + 10 * digit_val c + digit_val d"
    by (auto simp add: re_Y_def split: list.splits if_splits)
  then have "s = [a, b, c, d] @ r \<and> length [a, b, c, d] = 4 \<and> list_all is_digit [a, b, c, d]
      \<and> y = number [a, b, c, d]"
    by (simp add: number_def)
  then show ?thesis by blast
qed

lemma re_lit_mem: "r \<in> set (re_lit x s) \<Longrightarrow> s = x # r"
  by (auto simp add: re_lit_def split: list.splits if_splits)

lemma re_two_mem:
  "(v, r) \<in> set (re_two p q f s) \<Longrightarrow> \<exists>a b. s = a # b # r \<and> p a \<and> q b \<and> v = f a b"
  by (auto simp add: re_two_def split: list.splits if_splits)

lemma re_one_mem:
  "(v, r) \<in> set (re_one p s) \<Longrightarrow> \<exists>a. s = a # r \<and> p a \<and> v = digit_val a"
  by (auto simp add: re_one_def split: list.splits if_splits)

lemma re_m_mem:
  assumes "(m, r) \<in> set (re_m s)"
  shows "\<exists>ms. s = ms @ r \<and> month_text ms \<and> m = number ms"
proof -
  from assms consider
      a b where "s = [a, b] @ r" "is_digit a" "is_digit b" "m = two_digits a b"
    | a where "s = [a] @ r" "is_digit a" "m = digit_val a"
    by (auto simp add: re_m_def is_digit_def in_range_def char_eq_nat
        dest!: re_two_mem re_one_mem)
  then show ?thesis
  proof cases
    case 1
    then have "s = [a, b] @ r \<and> month_text [a, b] \<and> m = number [a, b]"
      by (simp add: month_text_def number_def two_digits_def)
    then show ?thesis by blast
  next
    case 2
    then have "s = [a] @ r \<and> month_text [a] \<and> m = number [a]"
      by (simp add: month_text_def number_def)
    then show ?thesis by blast
  qed
qed

lemma re_d_mem:
  assumes "(d, r) \<in> set (re_d s)"
  shows "\<exists>ds. s = ds @ r \<and> day_text ds \<and> d = number (dropWhile (\<lambda>c. c = CHR '' '') ds)"
proof -
  from assms consider
      a b where "s = [a, b] @ r" "is_digit a" "is_digit b" "d = two_digits a b"
    | a where "s = [a] @ r" "is_digit a" "d = digit_val a"
    | b where "s = [CHR '' '', b] @ r" "is_digit b" "d = digit_val b"
    by (auto simp add: re_d_def is_digit_def in_range_def char_eq_nat
        dest!: re_two_mem re_one_mem)
  then show ?thesis
  proof cases
    case 1
    then have "s = [a, b] @ r \<and> day_text [a, b]
        \<and> d = number (dropWhile (\<lambda>c. c = CHR '' '') [a, b])"
      by (auto simp add: day_text_def number_def two_digits_def is_digit_def in_range_def)
    then show ?thesis by blast
  next
    case 2
    then have "s = [a] @ r \<and> day_text [a] \<and> d = number (dropWhile (\<lambda>c. c = CHR '' '') [a])"
      by (auto simp add: day_text_def number_def is_digit_def in_range_def)
    then show ?thesis by blast
  next
    case 3
    then have "s = [CHR '' '', b] @ r \<and> day_text [CHR '' '', b]
        \<and> d = number (dropWhile (\<lambda>c. c = CHR '' '') [CHR '' '', b])"
      by (auto simp add: day_text_def number_def is_digit_def in_range_def)
    then show ?thesis by blast
  qed
qed

lemma re_ymd_mem:
  assumes "((y, m, d), r) \<in> set (re_ymd t)"
  shows "\<exists>ys ms ds. t = ys @ CHR ''-'' # ms @ CHR ''-'' # ds @ r
      \<and> length ys = 4 \<and> list_all is_digit ys \<and> month_text ms \<and> day_text ds
      \<and> (y, m, d) = (number ys, number ms, number (dropWhile (\<lambda>c. c = CHR '' '') ds))"
proof -
  from assms obtain r1 r2 r3 r4 where
    "(y, r1) \<in> set (re_Y t)" "r2 \<in> set (re_lit (CHR ''-'') r1)" "(m, r3) \<in> set (re_m r2)"
    "r4 \<in> set (re_lit (CHR ''-'') r3)" "(d, r) \<in> set (re_d r4)"
    by (auto simp add: re_ymd_def)
  then show ?thesis
    by (auto dest!: re_Y_mem re_lit_mem re_m_mem re_d_mem)
qed

lemma strptime_fields:
  assumes "strptime t = Some dt"
  shows "fields_ymd t = Some dt \<and> valid_date dt"
proof -
  from assms obtain rest where hd: "re_ymd t = (dt, []) # rest" and v: "valid_date dt"
    by (auto simp add: strptime_def split: list.splits if_splits)
  obtain y m d where dt: "dt = (y, m, d)" by (cases dt) auto
  have "((y, m, d), []) \<in> set (re_ymd t)" using hd dt by simp
  from re_ymd_mem [OF this] dt v show ?thesis
    by (auto simp add: fields_ymd_build)
qed

lemma strptime_iff: "strptime t = Some dt \<longleftrightarrow> fields_ymd t = Some dt \<and> valid_date dt"
  using strptime_fields strptime_accepts_fields by blast

lemma strptime_None_iff: "strptime t = None \<longleftrightarrow> \<not> accepted_ymd t"
proof (cases "strptime t")
  case None
  have "\<not> accepted_ymd t"
  proof
    assume "accepted_ymd t"
    then obtain dt where "fields_ymd t = Some dt" "valid_date dt"
      by (auto simp add: accepted_ymd_def split: option.splits)
    then have "strptime t = Some dt" by (rule strptime_accepts_fields)
    with None show False by simp
  qed
  with None show ?thesis by simp
next
  case (Some dt)
  then have "fields_ymd t = Some dt \<and> valid_date dt" by (rule strptime_fields)
  then have "accepted_ymd t" by (simp add: accepted_ymd_def)
  with Some show ?thesis by simp
qed

lemma digit_table: "\<forall>k \<in> set [0..<10]. of_char (''0123456789'' ! k) = (48 + k :: nat)"
  by code_simp

lemma of_char_digit_char: "of_char (digit_char n) = (48 + n mod 10 :: nat)"
  using digit_table by (simp add: digit_char_def)

lemma is_digit_digit_char: "is_digit (digit_char n)"
  by (simp add: is_digit_def in_range_def of_char_digit_char)

lemma digit_val_digit_char: "digit_val (digit_char n) = n mod 10"
  by (simp add: digit_val_def of_char_digit_char)

lemma digit_char_not_space: "digit_char n \<noteq> CHR '' ''"
  by (simp add: char_eq_nat of_char_digit_char)

lemma digits_combine:
  fixes a b c y :: nat
  assumes "a' = a" "b = 10 * a + b'" "c = 10 * b + c'" "y = 10 * c + d'"
  shows "10 * (10 * (10 * a' + b') + c') + d' = y"
  using assms by simp

lemma four_digits:
  assumes "(y::nat) \<le> 9999"
  shows "10 * (10 * (10 * (y div 1000 mod 10) + y div 100 mod 10) + y div 10 mod 10) + y mod 10 = y"
proof -
  have a: "y div 1000 mod 10 = y div 1000"
    using assms by (simp add: div_less_iff_less_mult)
  have "y div 1000 = y div 100 div 10"
    using div_mult2_eq [of y 100 10] by simp
  then have b: "y div 100 = 10 * (y div 1000) + y div 100 mod 10"
    by simp
  have "y div 100 = y div 10 div 10"
    using div_mult2_eq [of y 10 10] by simp
  then have c: "y div 10 = 10 * (y div 100) + y div 10 mod 10"
    by simp
  have d: "y = 10 * (y div 10) + y mod 10"
    by simp
  show ?thesis
    by (rule digits_combine [OF a b c d])
qed

lemma two_digits_nat:
  assumes "(m::nat) \<le> 99"
  shows "10 * (m div 10 mod 10) + m mod 10 = m"
proof -
  have "m div 10 mod 10 = m div 10"
    using assms by (simp add: div_less_iff_less_mult)
  then show ?thesis by simp
qed

lemma strptime_strftime:
  assumes "clock_ok dt"
  shows "strptime (strftime dt) = Some dt"
proof -
  obtain y m d where dt: "dt = (y, m, d)" by (cases dt) auto
  let ?ys = "[digit_char (y div 1000), digit_char (y div 100), digit_char (y div 10), digit_char y]"
  let ?ms = "[digit_char (m div 10), digit_char m]"
  let ?ds = "[digit_char (d div 10), digit_char d]"
  have v: "valid_date (y, m, d)"
    using assms dt by (simp add: clock_ok_def)
  then have y: "y \<le> 9999" and m: "m \<le> 99" and d: "d \<le> 99"
    by (auto simp add: valid_date_def days_in_month_def split: if_splits)
  have f: "fields_ymd (?ys @ CHR ''-'' # ?ms @ CHR ''-'' # ?ds)
      = Some (number ?ys, number ?ms, number (dropWhile (\<lambda>c. c = CHR '' '') ?ds))"
    by (rule fields_ymd_build) (simp_all add: is_digit_digit_char month_text_def day_text_def)
  have "number ?ys
      = 10 * (10 * (10 * (y div 1000 mod 10) + y div 100 mod 10) + y div 10 mod 10) + y mod 10"
    by (simp add: number_def digit_val_digit_char)
  also have "\<dots> = y" by (rule four_digits [OF y])
  finally have ny: "number ?ys = y" .
  have "number ?ms = 10 * (m div 10 mod 10) + m mod 10"
    by (simp add: number_def digit_val_digit_char)
  also have "\<dots> = m" by (rule two_digits_nat [OF m])
  finally have nm: "number ?ms = m" .
  have "dropWhile (\<lambda>c. c = CHR '' '') ?ds = ?ds"
    by (simp add: digit_char_not_space)
  then have "number (dropWhile (\<lambda>c. c = CHR '' '') ?ds) = 10 * (d div 10 mod 10) + d mod 10"
    by (simp add: number_def digit_val_digit_char)
  also have "\<dots> = d" by (rule two_digits_nat [OF d])
  finally have nd: "number (dropWhile (\<lambda>c. c = CHR '' '') ?ds) = d" .
  have "strftime dt = ?ys @ CHR ''-'' # ?ms @ CHR ''-'' # ?ds"
    by (simp add: strftime_def dt)
  with f ny nm nd have "fields_ymd (strftime dt) = Some dt"
    by (simp only: dt)
  then show ?thesis using v dt by (simp add: strptime_accepts_fields)
qed

lemma parse_date_parses:
  assumes "clock_ok today_date" "parse_date today_date dat = Inr d"
  shows "strptime d \<noteq> None"
proof (cases "strip dat = []")
  case True
  with assms(2) have "d = strftime today_date" by (simp add: parse_date_def)
  with strptime_strftime [OF assms(1)] show ?thesis by simp
next
  case False
  with assms(2) show ?thesis
    by (cases "strptime (strip dat)") (auto simp add: parse_date_def)
qed

lemma grouping_422_fields:
  assumes "grouping_422 t"
  shows "fields_ymd t = Some (number (take 4 t), number (take 2 (drop 5 t)), number (drop 8 t))"
proof -
  from assms obtain ys ms ds where sp: "split_on (CHR ''-'') t = [ys, ms, ds]"
    by (auto simp add: grouping_422_def split: list.splits)
  with assms have l: "length ys = 4" "length ms = 2" "length ds = 2"
    and dg: "list_all is_digit ys" "list_all is_digit ms" "list_all is_digit ds"
    by (simp_all add: grouping_422_def)
  have t: "t = ys @ CHR ''-'' # ms @ CHR ''-'' # ds"
    using sp by (rule split_on_three)
  have "dropWhile (\<lambda>c. c = CHR '' '') ds = ds"
    using l(3) dg(3) by (auto simp add: len2 is_digit_def in_range_def)
  then show ?thesis
    using sp l dg by (simp add: fields_ymd_def month_text_def day_text_def t)
qed

section \<open>Lemmas on deleting and loading\<close>

lemma list_all_removed_at: "list_all P xs \<Longrightarrow> list_all P (removed_at k xs)"
  by (auto simp add: removed_at_def list_all_iff dest: in_set_takeD in_set_dropD)

lemma list_all_py_del: "list_all P xs \<Longrightarrow> py_del xs i = Inr ys \<Longrightarrow> list_all P ys"
  using list_all_removed_at [of P xs]
  by (auto simp add: py_del_def Let_def removed_at_def split: if_splits)




lemma load_lines_autosave: "autosave (snd (load_lines rt ls s)) = autosave s"
  by (induction ls arbitrary: s) (auto simp add: Let_def split: sum.splits)


lemma load_txt_autosave: "autosave (snd (load_txt rt fs s)) = autosave s"
proof (cases "finance_data_txt fs")
  case (Text content)
  then show ?thesis by (simp add: load_txt_def load_lines_autosave)
next
  case (TextRaises content e)
  obtain x s' where r: "load_lines rt (lines_of (universal_newlines content)) s = (x, s')"
    by (cases "load_lines rt (lines_of (universal_newlines content)) s") auto
  with load_lines_autosave [of rt "lines_of (universal_newlines content)" s] TextRaises
  show ?thesis by (cases x) (simp_all add: load_txt_def)
qed


lemma load_from_file_autosave: "autosave (snd (load_from_file rt fs s)) = autosave s"
proof (cases "finance_data_json fs")
  case (Raises e)
  then show ?thesis by (simp add: load_from_file_def load_txt_autosave)
next
  case (Parsed d)
  then show ?thesis
    by (cases "data_expenses d"; cases "data_incomes d")
      (simp_all add: load_from_file_def Let_def)
qed

lemma init_failed:
  assumes "fst (load_from_file rt fs
      \<lparr>autosave = a, incomes = [], expenses = [], files_loaded = True\<rparr>) \<noteq> None"
  shows "init rt a fs = failed_ledger a"
proof -
  let ?s = "\<lparr>autosave = a, incomes = [], expenses = [], files_loaded = True\<rparr>"
  obtain e s' where r: "load_from_file rt fs ?s = (Some e, s')"
    using assms by (cases "load_from_file rt fs ?s") auto
  have "autosave s' = a"
    using load_from_file_autosave [of rt fs ?s] r by simp
  then show ?thesis
    by (cases s') (simp add: init_def failed_ledger_def r)
qed


lemma py_del_cases:
  "py_del xs i =
     (if 0 \<le> i \<and> i < int (length xs) then Inr (removed_at (nat i) xs)
      else if - int (length xs) \<le> i \<and> i < 0 then Inr (removed_at (nat (i + int (length xs))) xs)
      else Inl (IndexError ''list assignment index out of range''))"
  by (auto simp add: py_del_def removed_at_def Let_def)

lemma removed_at_nth:
  "k < length xs \<Longrightarrow> length (removed_at k xs) = length xs - 1
     \<and> (\<forall>j < length xs - 1. removed_at k xs ! j = (if j < k then xs ! j else xs ! Suc j))"
  by (auto simp add: removed_at_def nth_append min_def)

section \<open>Stored fields\<close>

text \<open>
  Claim C10. The text fields are stored as they are passed, not trimmed: after a
  successful \<open>add_income\<close> the source of the appended record is the source passed, and
  after a successful \<open>add_expense\<close> description and category are those passed;
  trimming only decides the checks for blank fields. The date of the expense is the one
  field stored as \<open>parse_date\<close> returns it.
\<close>

theorem add_stores_verbatim:
  "(strip src \<noteq> [] \<and> 0 \<le> amt \<longrightarrow>
      source (last (incomes (ledger (add_income rt src amt s fs)))) = src)
   \<and> (strip descr \<noteq> [] \<and> strip cat \<noteq> [] \<and> 0 \<le> eamt
        \<and> parse_date (today rt) dat = Inr d \<longrightarrow>
      description (last (expenses (ledger (add_expense rt descr cat eamt dat s fs)))) = descr
      \<and> category (last (expenses (ledger (add_expense rt descr cat eamt dat s fs)))) = cat
      \<and> date (last (expenses (ledger (add_expense rt descr cat eamt dat s fs)))) = d)"
  using zero_le_not_less [of amt] zero_le_not_less [of eamt]
  by (auto simp add: add_income_def add_expense_def ledger_def Let_def)

theorem add_stores_verbatim_witness:
  "strip '' job '' \<noteq> [] \<and> strip '' job '' \<noteq> '' job '' \<and> (0::float) \<le> whole 1123
   \<and> strip '' car lease'' \<noteq> [] \<and> strip ''transportation '' \<noteq> [] \<and> (0::float) \<le> whole 500
   \<and> parse_date (today example_runtime) '' 2024-01-20 '' = Inr ''2024-01-20''
   \<and> source (last (incomes (ledger (add_income example_runtime '' job '' (whole 1123)
        example_ledger no_files)))) = '' job ''
   \<and> description (last (expenses (ledger (add_expense example_runtime '' car lease''
        ''transportation '' (whole 500) '' 2024-01-20 '' example_ledger no_files)))) = '' car lease''
   \<and> category (last (expenses (ledger (add_expense example_runtime '' car lease''
        ''transportation '' (whole 500) '' 2024-01-20 '' example_ledger no_files)))) = ''transportation ''
   \<and> date (last (expenses (ledger (add_expense example_runtime '' car lease''
        ''transportation '' (whole 500) '' 2024-01-20 '' example_ledger no_files)))) = ''2024-01-20''"
  using add_stores_verbatim [where rt = example_runtime and src = "'' job ''" and amt = "whole 1123"
      and s = example_ledger and fs = no_files and descr = "'' car lease''"
      and cat = "''transportation ''" and eamt = "whole 500" and dat = "'' 2024-01-20 ''"
      and d = "''2024-01-20''"]
  by (simp add: date_simps example_runtime_def zero_le_whole)

section \<open>Deleting by index\<close>

text \<open>
  Claim C9, as amended. With \<open>n\<close> records in the sequence: for \<open>0 \<le> i < n\<close> the
  delete removes the record at position \<open>i\<close> and leaves the others in order; for
  \<open>- n \<le> i < 0\<close> it removes the record at position \<open>n + i\<close>, counting from the end;
  for \<open>i \<ge> n\<close> and for \<open>i < - n\<close> it raises \<open>IndexError\<close> and leaves ledger and
  files as they were.
\<close>

theorem delete_by_index:
  "(0 \<le> i \<and> i < int (length (incomes s)) \<longrightarrow>
      raised (delete_income rt i s fs) = None
      \<and> incomes (ledger (delete_income rt i s fs)) = removed_at (nat i) (incomes s)
      \<and> expenses (ledger (delete_income rt i s fs)) = expenses s)
   \<and> (- int (length (incomes s)) \<le> i \<and> i < 0 \<longrightarrow>
      raised (delete_income rt i s fs) = None
      \<and> incomes (ledger (delete_income rt i s fs))
          = removed_at (nat (i + int (length (incomes s)))) (incomes s)
      \<and> expenses (ledger (delete_income rt i s fs)) = expenses s)
   \<and> (int (length (incomes s)) \<le> i \<or> i < - int (length (incomes s)) \<longrightarrow>
      raised (delete_income rt i s fs) = Some (IndexError ''list assignment index out of range'')
      \<and> ledger (delete_income rt i s fs) = s \<and> disk (delete_income rt i s fs) = fs)
   \<and> (0 \<le> i \<and> i < int (length (expenses s)) \<longrightarrow>
      raised (delete_expense rt i s fs) = None
      \<and> expenses (ledger (delete_expense rt i s fs)) = removed_at (nat i) (expenses s)
      \<and> incomes (ledger (delete_expense rt i s fs)) = incomes s)
   \<and> (- int (length (expenses s)) \<le> i \<and> i < 0 \<longrightarrow>
      raised (delete_expense rt i s fs) = None
      \<and> expenses (ledger (delete_expense rt i s fs))
          = removed_at (nat (i + int (length (expenses s)))) (expenses s)
      \<and> incomes (ledger (delete_expense rt i s fs)) = incomes s)
   \<and> (int (length (expenses s)) \<le> i \<or> i < - int (length (expenses s)) \<longrightarrow>
      raised (delete_expense rt i s fs) = Some (IndexError ''list assignment index out of range'')
      \<and> ledger (delete_expense rt i s fs) = s \<and> disk (delete_expense rt i s fs) = fs)"
  by (simp add: delete_income_def delete_expense_def py_del_cases raised_def ledger_def
      disk_def Let_def)

theorem delete_by_index_witness:
  "(0::int) \<le> 1 \<and> 1 < int (length (incomes example_ledger))
   \<and> incomes (ledger (delete_income example_runtime 1 example_ledger no_files)) = [job]
   \<and> - int (length (expenses example_ledger)) \<le> - 2 \<and> (- 2 :: int) < 0
   \<and> expenses (ledger (delete_expense example_runtime (- 2) example_ledger no_files)) = [rent]
   \<and> int (length (incomes example_ledger)) \<le> 2
   \<and> raised (delete_income example_runtime 2 example_ledger no_files)
       = Some (IndexError ''list assignment index out of range'')
   \<and> ledger (delete_income example_runtime 2 example_ledger no_files) = example_ledger
   \<and> (- 3 :: int) < - int (length (expenses example_ledger))
   \<and> ledger (delete_expense example_runtime (- 3) example_ledger no_files) = example_ledger"
  using delete_by_index [where rt = example_runtime and i = 1 and s = example_ledger
      and fs = no_files]
    delete_by_index [where rt = example_runtime and i = "- 2" and s = example_ledger
      and fs = no_files]
    delete_by_index [where rt = example_runtime and i = 2 and s = example_ledger
      and fs = no_files]
    delete_by_index [where rt = example_runtime and i = "- 3" and s = example_ledger
      and fs = no_files]
  by (simp add: example_ledger_def removed_at_def)

text \<open>
  Claim C9 as stated fails for a negative index: on a ledger with two incomes,
  \<open>delete_income(-1)\<close> raises nothing and removes the last income.
\<close>

theorem delete_negative_index_counterexample:
  "raised (delete_income example_runtime (- 1) example_ledger no_files) = None
   \<and> incomes (ledger (delete_income example_runtime (- 1) example_ledger no_files)) = [job]
   \<and> incomes (ledger (delete_income example_runtime (- 1) example_ledger no_files))
       \<noteq> incomes example_ledger"
  by (simp add: delete_income_def py_del_def raised_def ledger_def example_ledger_def Let_def)

section \<open>Saving and loading again\<close>

text \<open>
  Claim C5. When a ledger that persists (\<open>autosave\<close>) saves itself, a new ledger
  constructed from the files just written has the same incomes and the same expenses,
  element by element, and reports that the files were loaded.
\<close>

theorem save_then_load:
  "autosave s \<longrightarrow>
     incomes (init rt a (save_to_file rt s fs)) = incomes s
     \<and> expenses (init rt a (save_to_file rt s fs)) = expenses s
     \<and> length (incomes (init rt a (save_to_file rt s fs))) = length (incomes s)
     \<and> length (expenses (init rt a (save_to_file rt s fs))) = length (expenses s)
     \<and> files_loaded (init rt a (save_to_file rt s fs))"
  by (simp add: init_def save_to_file_def load_from_file_def or_empty_def Let_def)

theorem save_then_load_witness:
  "autosave example_ledger
   \<and> incomes (init example_runtime False (save_to_file example_runtime example_ledger no_files))
       = [job, stocks]
   \<and> expenses (init example_runtime False (save_to_file example_runtime example_ledger no_files))
       = [car_lease, rent]"
  using save_then_load [where rt = example_runtime and s = example_ledger and fs = no_files
      and a = False]
  by (simp add: example_ledger_def)

section \<open>Load failures\<close>




text \<open>
  Claim C7 fails on the code. A structured file that parses and has the key
  \<open>incomes\<close> but no key \<open>expenses\<close> makes \<open>data["expenses"]\<close> raise \<open>KeyError\<close>, which
  the method does not catch: the constructor empties the ledger and sets
  \<open>files_loaded\<close> to false, and the incomes of the file are not loaded. Only the value
  \<open>null\<close> under a key that is present is read as the empty list.
\<close>

theorem absent_list_fails_load:
  "init example_runtime True only_incomes_file
     = \<lparr>autosave = True, incomes = [], expenses = [], files_loaded = False\<rparr>"
  by (simp add: init_def load_from_file_def only_incomes_file_def)

section \<open>The invariants of the records\<close>

text \<open>
  Claim C8, as amended. When the ledger satisfies the invariants (amounts not negative,
  required text fields not blank after trimming, expense dates that parse), the ledger
  after \<open>add_income\<close> and \<open>add_expense\<close> with an amount that is a number (not the
  not-a-number value), and after \<open>delete_income\<close> and \<open>delete_expense\<close>, satisfies
  them, whether the call raises or not; for \<open>add_expense\<close> the clock shows a valid date
  with a year of four digits. The constructor does not validate what it loads: its
  ledger satisfies the invariants when the load fails, and when the structured file
  parses and the records in it satisfy them.
\<close>

theorem operations_keep_records_valid:
  "(ledger_ok s \<and> amt \<noteq> NaN \<longrightarrow> ledger_ok (ledger (add_income rt src amt s fs)))
   \<and> (ledger_ok s \<and> clock_ok (today rt) \<and> eamt \<noteq> NaN \<longrightarrow>
        ledger_ok (ledger (add_expense rt descr cat eamt dat s fs)))
   \<and> (ledger_ok s \<longrightarrow>
        ledger_ok (ledger (delete_income rt i s fs))
        \<and> ledger_ok (ledger (delete_expense rt i s fs)))
   \<and> (fst (load_from_file rt fs (empty_ledger\<lparr>autosave := a\<rparr>)) \<noteq> None \<longrightarrow>
        ledger_ok (init rt a fs))
   \<and> (finance_data_json fs = Parsed d
        \<and> list_all income_ok (or_empty (data_incomes d))
        \<and> list_all expense_ok (or_empty (data_expenses d)) \<longrightarrow>
        ledger_ok (init rt a fs))"
proof -
  have s: "empty_ledger\<lparr>autosave := a\<rparr>
      = \<lparr>autosave = a, incomes = [], expenses = [], files_loaded = True\<rparr>"
    by (simp add: empty_ledger_def)
  have add_i: "ledger_ok (ledger (add_income rt src amt s fs))" if "ledger_ok s" "amt \<noteq> NaN"
    using that not_less_zero_le [of amt]
    by (auto simp add: add_income_def ledger_def ledger_ok_def income_ok_def Let_def)
  have add_e: "ledger_ok (ledger (add_expense rt descr cat eamt dat s fs))"
    if "ledger_ok s" "clock_ok (today rt)" "eamt \<noteq> NaN"
    using that parse_date_parses [of "today rt" dat] not_less_zero_le [of eamt]
    by (auto simp add: add_expense_def ledger_def ledger_ok_def expense_ok_def Let_def
        split: sum.splits)
  have del_i: "ledger_ok (ledger (delete_income rt i s fs))" if "ledger_ok s"
    using that list_all_py_del [of income_ok "incomes s" i]
    by (auto simp add: delete_income_def ledger_def ledger_ok_def Let_def split: sum.splits)
  have del_e: "ledger_ok (ledger (delete_expense rt i s fs))" if "ledger_ok s"
    using that list_all_py_del [of expense_ok "expenses s" i]
    by (auto simp add: delete_expense_def ledger_def ledger_ok_def Let_def split: sum.splits)
  have failed: "ledger_ok (init rt a fs)"
    if "fst (load_from_file rt fs (empty_ledger\<lparr>autosave := a\<rparr>)) \<noteq> None"
    using that init_failed [of rt fs a] by (simp add: s failed_ledger_def ledger_ok_def)
  have json: "ledger_ok (init rt a fs)"
    if "finance_data_json fs = Parsed d" "list_all income_ok (or_empty (data_incomes d))"
      "list_all expense_ok (or_empty (data_expenses d))"
    using that
    by (cases "data_expenses d"; cases "data_incomes d")
      (simp_all add: init_def load_from_file_def Let_def ledger_ok_def)
  show ?thesis
    using add_i add_e del_i del_e failed json by blast
qed

theorem operations_keep_records_valid_witness:
  "ledger_ok example_ledger \<and> clock_ok (today example_runtime)
   \<and> whole 50 \<noteq> NaN \<and> whole 40 \<noteq> NaN
   \<and> ledger_ok (ledger (add_income example_runtime ''gift'' (whole 50) example_ledger no_files))
   \<and> ledger_ok (ledger (add_expense example_runtime ''fuel'' ''transportation'' (whole 40) ''  ''
        example_ledger no_files))
   \<and> ledger_ok (ledger (delete_income example_runtime 0 example_ledger no_files))
   \<and> ledger_ok (ledger (delete_expense example_runtime (- 1) example_ledger no_files))
   \<and> fst (load_from_file example_runtime no_files (empty_ledger\<lparr>autosave := True\<rparr>)) \<noteq> None
   \<and> ledger_ok (init example_runtime True no_files)
   \<and> ledger_ok (init example_runtime True
        (save_to_file example_runtime example_ledger no_files))"
proof -
  let ?saved = "save_to_file example_runtime example_ledger no_files"
  let ?d = "\<lparr>data_expenses = Value [car_lease, rent], data_incomes = Value [job, stocks]\<rparr>"
  have i: "income_ok job \<and> income_ok stocks"
    by (simp add: income_ok_def job_def stocks_def strip_def is_space_def zero_le_whole)
  have e: "expense_ok car_lease \<and> expense_ok rent"
    by (simp add: expense_ok_def car_lease_def rent_def date_simps zero_le_whole)
  have ok: "ledger_ok example_ledger"
    using i e by (simp add: ledger_ok_def example_ledger_def)
  have clock: "clock_ok (today example_runtime)"
    by (simp add: clock_ok_def example_runtime_def valid_date_def days_in_month_def)
  have nan: "whole 50 \<noteq> NaN \<and> whole 40 \<noteq> NaN"
    by (simp add: whole_not_NaN)
  have fail: "fst (load_from_file example_runtime no_files (empty_ledger\<lparr>autosave := True\<rparr>))
      \<noteq> None"
    by (simp add: load_from_file_def load_txt_def no_files_def caught_def)
  have saved: "finance_data_json ?saved = Parsed ?d
      \<and> list_all income_ok (or_empty (data_incomes ?d))
      \<and> list_all expense_ok (or_empty (data_expenses ?d))"
    using i e by (simp add: save_to_file_def example_ledger_def or_empty_def)
  show ?thesis
    using ok clock nan fail saved
      operations_keep_records_valid [where rt = example_runtime and s = example_ledger
        and fs = no_files and src = "''gift''" and amt = "whole 50" and descr = "''fuel''"
        and cat = "''transportation''" and eamt = "whole 40" and dat = "''  ''" and i = 0
        and a = True]
      operations_keep_records_valid [where rt = example_runtime and s = example_ledger
        and fs = no_files and i = "- 1" and a = True]
      operations_keep_records_valid [where rt = example_runtime and fs = ?saved and d = ?d
        and a = True]
    by blast
qed

text \<open>
  Claim C8 as stated fails for construction: a structured file with an income of blank
  source and negative amount is loaded as it is.
\<close>

theorem load_does_not_validate_counterexample:
  "files_loaded (init example_runtime True negative_income_file)
   \<and> incomes (init example_runtime True negative_income_file)
       = [\<lparr>source = '' '', amount = whole (- 5)\<rparr>]
   \<and> \<not> ledger_ok (init example_runtime True negative_income_file)"
  by (simp add: init_def load_from_file_def negative_income_file_def or_empty_def
      ledger_ok_def income_ok_def zero_le_whole)

section \<open>Parsing dates\<close>

text \<open>
  Claim C4, as amended. A text that is blank after trimming gives the date of the clock as
  \<open>YYYY-MM-DD\<close>. A trimmed text in the grouping of four, two and two digits denotes the
  date of its three numbers and, when that date is valid, is returned unchanged. More
  generally the trimmed text is returned unchanged exactly when it is a year of four
  digits, a hyphen, a month of one or two digits, a hyphen and a day of one or two digits
  or of a space and a digit, and these denote a valid date; every other text that is not
  blank raises \<open>ValueError\<close> with the one message.
\<close>

theorem parse_date_cases:
  "(strip inp = [] \<longrightarrow> parse_date today_date inp = Inr (strftime today_date))
   \<and> (grouping_422 (strip inp) \<longrightarrow>
        strip inp \<noteq> []
        \<and> fields_ymd (strip inp)
            = Some (number (take 4 (strip inp)), number (take 2 (drop 5 (strip inp))),
                    number (drop 8 (strip inp))))
   \<and> (grouping_422 (strip inp) \<and> accepted_ymd (strip inp) \<longrightarrow>
        parse_date today_date inp = Inr (strip inp))
   \<and> (strip inp \<noteq> [] \<and> accepted_ymd (strip inp) \<longrightarrow>
        parse_date today_date inp = Inr (strip inp))
   \<and> (strip inp \<noteq> [] \<and> \<not> accepted_ymd (strip inp) \<longrightarrow>
        parse_date today_date inp = Inl (ValueError date_format_message))"
proof -
  have ne: "strip inp \<noteq> []" if "grouping_422 (strip inp)"
    using that by (auto simp add: grouping_422_def)
  have acc: "parse_date today_date inp = Inr (strip inp)"
    if "strip inp \<noteq> []" "accepted_ymd (strip inp)"
    using that strptime_None_iff [of "strip inp"]
    by (auto simp add: parse_date_def Let_def split: option.splits)
  have rej: "parse_date today_date inp = Inl (ValueError date_format_message)"
    if "strip inp \<noteq> []" "\<not> accepted_ymd (strip inp)"
    using that strptime_None_iff [of "strip inp"]
    by (auto simp add: parse_date_def Let_def split: option.splits)
  have blank: "parse_date today_date inp = Inr (strftime today_date)" if "strip inp = []"
    using that by (simp add: parse_date_def)
  show ?thesis
    using ne acc rej blank grouping_422_fields [of "strip inp"] by blast
qed

theorem parse_date_cases_witness:
  "strip ''   '' = [] \<and> parse_date (2026, 11, 4) ''   '' = Inr ''2026-11-04''
   \<and> grouping_422 (strip '' 2024-01-20 '') \<and> accepted_ymd (strip '' 2024-01-20 '')
   \<and> fields_ymd (strip '' 2024-01-20 '') = Some (2024, 1, 20)
   \<and> parse_date (2026, 11, 4) '' 2024-01-20 '' = Inr ''2024-01-20''
   \<and> strip ''2024-01- 5'' \<noteq> [] \<and> accepted_ymd (strip ''2024-01- 5'')
   \<and> parse_date (2026, 11, 4) ''2024-01- 5'' = Inr ''2024-01- 5''
   \<and> strip ''2024-13-05'' \<noteq> [] \<and> \<not> accepted_ymd (strip ''2024-13-05'')
   \<and> parse_date (2026, 11, 4) ''2024-13-05'' = Inl (ValueError ''Date format should be %Y-%m-%d'')
   \<and> strip ''20222-123-123'' \<noteq> [] \<and> \<not> accepted_ymd (strip ''20222-123-123'')
   \<and> parse_date (2026, 11, 4) ''20222-123-123''
       = Inl (ValueError ''Date format should be %Y-%m-%d'')"
proof -
  have s: "strip ''   '' = []" "strip '' 2024-01-20 '' = ''2024-01-20''"
    "strip ''2024-01- 5'' = ''2024-01- 5''" "strip ''2024-13-05'' = ''2024-13-05''"
    "strip ''20222-123-123'' = ''20222-123-123''"
    by (simp_all add: strip_def is_space_def)
  have g: "grouping_422 ''2024-01-20''"
    by (simp add: grouping_422_def is_digit_def in_range_def)
  have a1: "accepted_ymd ''2024-01-20''"
    by (simp add: accepted_ymd_def fields_ymd_def month_text_def day_text_def number_def
        is_digit_def in_range_def digit_val_def valid_date_def days_in_month_def)
  have a2: "accepted_ymd ''2024-01- 5''"
    by (simp add: accepted_ymd_def fields_ymd_def month_text_def day_text_def number_def
        is_digit_def in_range_def digit_val_def valid_date_def days_in_month_def)
  have r1: "\<not> accepted_ymd ''2024-13-05''"
    by (simp add: accepted_ymd_def fields_ymd_def month_text_def day_text_def number_def
        is_digit_def in_range_def digit_val_def valid_date_def days_in_month_def)
  have r2: "\<not> accepted_ymd ''20222-123-123''"
    by (simp add: accepted_ymd_def fields_ymd_def month_text_def day_text_def number_def
        is_digit_def in_range_def digit_val_def valid_date_def days_in_month_def)
  have t: "strftime (2026, 11, 4) = ''2026-11-04''"
    by (simp add: strftime_def digit_char_def)
  have n: "number (take 4 ''2024-01-20'') = 2024 \<and> number (take 2 (drop 5 ''2024-01-20'')) = 1
      \<and> number (drop 8 ''2024-01-20'') = 20"
    by (simp add: number_def digit_val_def)
  show ?thesis
    using s g a1 a2 r1 r2 t n
      parse_date_cases [where today_date = "(2026, 11, 4)" and inp = "''   ''"]
      parse_date_cases [where today_date = "(2026, 11, 4)" and inp = "'' 2024-01-20 ''"]
      parse_date_cases [where today_date = "(2026, 11, 4)" and inp = "''2024-01- 5''"]
      parse_date_cases [where today_date = "(2026, 11, 4)" and inp = "''2024-13-05''"]
      parse_date_cases [where today_date = "(2026, 11, 4)" and inp = "''20222-123-123''"]
    by (simp add: date_format_message_def)
qed

text \<open>
  Claim C4 as stated fails: \<open>2024-1-5\<close> is not blank and is not in the grouping of four,
  two and two digits, and \<open>parse_date\<close> returns it unchanged instead of raising.
\<close>

theorem parse_date_lenient_counterexample:
  "strip ''2024-1-5'' \<noteq> [] \<and> \<not> grouping_422 (strip ''2024-1-5'')
   \<and> parse_date (2026, 11, 4) ''2024-1-5'' = Inr ''2024-1-5''"
  by (simp add: grouping_422_def date_simps)

end
